theory Spec2Isabelle
  imports Main "HOL-Library.Multiset"
begin

section \<open>The user controller of the storefront backend\<close>

text \<open>
  This theory embeds the request handlers of \<^verbatim>\<open>backend/controller/user.js\<close>.
  Every handler is a function from the state of the world before the request (the user
  collection, the image host, the mails sent so far) and the fields the handler reads from
  the request to the outcome of the request and the state after it. An outcome is either
  the error handed to \<^verbatim>\<open>next\<close> (an \<^verbatim>\<open>ErrorHandler\<close> built by the handler,
  or an exception that \<^verbatim>\<open>catchAsyncErrors\<close> forwards) or the JSON reply.

  The collaborators the controller imports (the image host, the mailer, the signing
  library's MAC, the password comparison of the user model) are parameters of the model,
  collected in the record \<open>services\<close>.
\<close>

subsection \<open>Documents\<close>

type_synonym objectId = nat

text \<open>The \<^verbatim>\<open>{ public_id, url }\<close> object stored under \<^verbatim>\<open>user.avatar\<close>.\<close>

record avatar_obj =
  public_id :: string
  url :: string

text \<open>
  An element of \<^verbatim>\<open>user.addresses\<close>. The controller reads \<^verbatim>\<open>_id\<close> and
  \<^verbatim>\<open>addressType\<close>; every other property is kept in a map from property names to values.
  A stored address is a sub-document of the object-document mapper: its \<^verbatim>\<open>_id\<close> is an
  identifier object, of which \<open>address_id\<close> is the value.
\<close>

record address =
  address_id :: objectId
  addressType :: "string option"
  addressFields :: "string \<rightharpoonup> string"

text \<open>
  The body of an address request, parsed from JSON: any property may be absent. When the
  body has an \<^verbatim>\<open>_id\<close>, it is a string, and \<open>body_id\<close> is the identifier the string
  denotes.
\<close>

record address_body =
  body_id :: "objectId option"
  body_addressType :: "string option"
  body_fields :: "string \<rightharpoonup> string"

record user =
  user_id :: objectId
  name :: string
  email :: string
  password :: string
  phoneNumber :: "string option"
  avatar :: "avatar_obj option"
  addresses :: "address list"
  createdAt :: nat

subsection \<open>Errors and replies\<close>

datatype exn =
  TypeError
  | JsonWebTokenError
  | TokenExpiredError
  | CloudinaryError
  | MailError
  | DuplicateKeyError

datatype error =
  ErrorHandler string nat
  | Thrown exn

datatype reply =
  JsonMessage nat string
  | JsonUser nat "user option"
  | JsonUsers nat "user list"
  | SendToken user nat

subsection \<open>Collaborators\<close>

record upload_options =
  folder :: string
  width :: "nat option"

record mail =
  mail_email :: string
  mail_subject :: string
  mail_message :: string

text \<open>
  A signed token as \<^verbatim>\<open>jwt.sign({ user }, secret, { expiresIn })\<close> builds it: the payload,
  the issue and expiry times in seconds, and the signature over the three.
\<close>

record jwt =
  jwt_user :: user
  jwt_iat :: nat
  jwt_exp :: nat
  jwt_signature :: string

record 'c services =
  comparePassword :: "user \<Rightarrow> string \<Rightarrow> bool"
  cloud_upload :: "'c \<Rightarrow> string option \<Rightarrow> upload_options \<Rightarrow> (avatar_obj \<times> 'c) option"
  cloud_destroy :: "'c \<Rightarrow> string \<Rightarrow> 'c option"
  sendMail :: "mail \<Rightarrow> bool"
  hmac :: "string \<Rightarrow> user \<times> nat \<times> nat \<Rightarrow> string"
  render_token :: "jwt \<Rightarrow> string"
  ACTIVATION_SECRET :: string

record 'c state =
  users :: "user list"
  cloudinary :: 'c
  outbox :: "mail list"
  fresh_id :: objectId

subsection \<open>The user collection\<close>

definition findOne :: "user list \<Rightarrow> string \<Rightarrow> user option" where
  "findOne us e = find (\<lambda>u. email u = e) us"

definition findById :: "user list \<Rightarrow> objectId \<Rightarrow> user option" where
  "findById us i = find (\<lambda>u. user_id u = i) us"

text \<open>\<^verbatim>\<open>updateOne({ _id: i }, f)\<close>: the first document with the identifier is rewritten.\<close>

fun updateOne :: "objectId \<Rightarrow> (user \<Rightarrow> user) \<Rightarrow> user list \<Rightarrow> user list" where
  "updateOne i f [] = []"
| "updateOne i f (u # us) = (if user_id u = i then f u # us else u # updateOne i f us)"

text \<open>
  Modelled from the spec: the user model of the repository is not among the sources, so the
  schema's hooks and validators are not embedded. \<^verbatim>\<open>doc.save()\<close> on a document that was
  read from the collection writes the document as the handler holds it over the stored one.
\<close>

definition save :: "user \<Rightarrow> user list \<Rightarrow> user list" where
  "save doc us = updateOne (user_id doc) (\<lambda>_. doc) us"

text \<open>
  Modelled from the spec: \<^verbatim>\<open>doc.save()\<close> on a document built by \<^verbatim>\<open>new User\<close>
  inserts the document, as the handler holds it, after the documents of the collection.
\<close>

definition save_new :: "user \<Rightarrow> user list \<Rightarrow> user list" where
  "save_new doc us = us @ [doc]"

text \<open>
  \<^verbatim>\<open>User.create(payload)\<close> inserts the payload under the identifier it carries; the
  database refuses an identifier that is already taken.
\<close>

definition User_create :: "user \<Rightarrow> user list \<Rightarrow> exn + user \<times> user list" where
  "User_create doc us =
     (if \<exists>u \<in> set us. user_id u = user_id doc then Inl DuplicateKeyError
      else Inr (doc, us @ [doc]))"

text \<open>
  Modelled from the spec: the schema (not among the sources) gives a new user no phone
  number, no addresses and the creation timestamp of the moment it is built.
\<close>

definition new_User :: "objectId \<Rightarrow> nat \<Rightarrow> string \<Rightarrow> string \<Rightarrow> string \<Rightarrow> avatar_obj option \<Rightarrow> user" where
  "new_User i now n e p av =
     \<lparr>user_id = i, name = n, email = e, password = p, phoneNumber = None, avatar = av,
      addresses = [], createdAt = now\<rparr>"

text \<open>\<^verbatim>\<open>User.find().sort({ createdAt: -1 })\<close>: all documents, latest creation time first.\<close>

fun insert_desc :: "user \<Rightarrow> user list \<Rightarrow> user list" where
  "insert_desc u [] = [u]"
| "insert_desc u (v # vs) =
     (if createdAt v \<le> createdAt u then u # v # vs else v # insert_desc u vs)"

fun sort_createdAt_desc :: "user list \<Rightarrow> user list" where
  "sort_createdAt_desc [] = []"
| "sort_createdAt_desc (u # us) = insert_desc u (sort_createdAt_desc us)"

subsection \<open>Token signing\<close>

text \<open>
  The clock is \<^verbatim>\<open>Date.now()\<close>, in milliseconds; the signing library works in whole
  seconds.
\<close>

definition jwt_sign :: "'c services \<Rightarrow> nat \<Rightarrow> user \<Rightarrow> string \<Rightarrow> nat \<Rightarrow> jwt" where
  "jwt_sign svc now u secret expiresIn =
     (let iat = now div 1000; exp = iat + expiresIn
      in \<lparr>jwt_user = u, jwt_iat = iat, jwt_exp = exp,
          jwt_signature = hmac svc secret (u, iat, exp)\<rparr>)"

text \<open>
  \<^verbatim>\<open>jwt.verify\<close> throws on a token that is missing or cannot be parsed, on a signature
  that does not match, and on a token whose expiry time has been reached.
\<close>

definition jwt_verify :: "'c services \<Rightarrow> nat \<Rightarrow> jwt option \<Rightarrow> string \<Rightarrow> exn + user" where
  "jwt_verify svc now token secret =
     (case token of
        None \<Rightarrow> Inl JsonWebTokenError
      | Some t \<Rightarrow>
          if jwt_signature t \<noteq> hmac svc secret (jwt_user t, jwt_iat t, jwt_exp t)
          then Inl JsonWebTokenError
          else if jwt_exp t \<le> now div 1000 then Inl TokenExpiredError
          else Inr (jwt_user t))"

text \<open>\<^verbatim>\<open>expiresIn: "5m"\<close> is 300 seconds.\<close>

definition createActivationToken :: "'c services \<Rightarrow> nat \<Rightarrow> user \<Rightarrow> jwt" where
  "createActivationToken svc now u = jwt_sign svc now u (ACTIVATION_SECRET svc) 300"

subsection \<open>Handlers\<close>

text \<open>JavaScript truthiness of a string that may be absent.\<close>

definition truthy :: "string option \<Rightarrow> bool" where
  "truthy x = (case x of None \<Rightarrow> False | Some v \<Rightarrow> v \<noteq> [])"

definition activation_mail :: "'c services \<Rightarrow> user \<Rightarrow> jwt \<Rightarrow> mail" where
  "activation_mail svc u t =
     \<lparr>mail_email = email u, mail_subject = ''Activate your account'',
      mail_message = ''Hello '' @ name u
        @ '', please click on the link to activate your account: ''
        @ ''http://localhost:3000/api/v2/activation/'' @ render_token svc t\<rparr>"

text \<open>\<^verbatim>\<open>POST /create-user\<close>, after the duplicate check and the optional upload.\<close>

definition create_user_save ::
  "'c services \<Rightarrow> nat \<Rightarrow> 'c state \<Rightarrow> string \<Rightarrow> string \<Rightarrow> string \<Rightarrow> avatar_obj option
     \<Rightarrow> (error + reply) \<times> 'c state" where
  "create_user_save svc now s n e p av =
     (let u = new_User (fresh_id s) now n e p av;
          s1 = s\<lparr>users := save_new u (users s), fresh_id := Suc (fresh_id s)\<rparr>;
          activationToken = createActivationToken svc now u;
          m = activation_mail svc u activationToken
      in if sendMail svc m
         then (Inr (JsonMessage 201
                 (''Please check your email ('' @ email u @ '') to activate your account!'')),
               s1\<lparr>outbox := outbox s1 @ [m]\<rparr>)
         else (Inl (Thrown MailError), s1))"

definition create_user ::
  "'c services \<Rightarrow> nat \<Rightarrow> 'c state \<Rightarrow> string \<Rightarrow> string \<Rightarrow> string \<Rightarrow> string option
     \<Rightarrow> (error + reply) \<times> 'c state" where
  "create_user svc now s n e p av =
     (case findOne (users s) e of
        Some userEmail \<Rightarrow> (Inl (ErrorHandler ''User already exists'' 400), s)
      | None \<Rightarrow>
          if truthy av
          then (case cloud_upload svc (cloudinary s) av \<lparr>folder = ''avatars'', width = None\<rparr> of
                  None \<Rightarrow> (Inl (Thrown CloudinaryError), s)
                | Some (myCloud, c) \<Rightarrow>
                    create_user_save svc now (s\<lparr>cloudinary := c\<rparr>) n e p (Some myCloud))
          else create_user_save svc now s n e p None)"

text \<open>
  \<^verbatim>\<open>POST /activation\<close>. The value \<^verbatim>\<open>jwt.verify\<close> returns is an object, so the
  \<^verbatim>\<open>!decoded\<close> branch is never taken.
\<close>

definition activation ::
  "'c services \<Rightarrow> nat \<Rightarrow> 'c state \<Rightarrow> jwt option \<Rightarrow> (error + reply) \<times> 'c state" where
  "activation svc now s activation_token =
     (case jwt_verify svc now activation_token (ACTIVATION_SECRET svc) of
        Inl x \<Rightarrow> (Inl (Thrown x), s)
      | Inr u \<Rightarrow>
          (case findOne (users s) (email u) of
             Some existingUser \<Rightarrow> (Inl (ErrorHandler ''User already activated'' 400), s)
           | None \<Rightarrow>
               (case User_create u (users s) of
                  Inl x \<Rightarrow> (Inl (Thrown x), s)
                | Inr (newUser, us) \<Rightarrow> (Inr (SendToken newUser 201), s\<lparr>users := us\<rparr>))))"

text \<open>\<^verbatim>\<open>POST /login-user\<close>.\<close>

definition login_user ::
  "'c services \<Rightarrow> 'c state \<Rightarrow> string option \<Rightarrow> string option \<Rightarrow> (error + reply) \<times> 'c state" where
  "login_user svc s em pw =
     (if \<not> truthy em \<or> \<not> truthy pw
      then (Inl (ErrorHandler ''Please provide email and password'' 400), s)
      else (case findOne (users s) (case em of Some e \<Rightarrow> e | None \<Rightarrow> []) of
              None \<Rightarrow> (Inl (ErrorHandler ''Invalid credentials'' 401), s)
            | Some u \<Rightarrow>
                if \<not> comparePassword svc u (case pw of Some p \<Rightarrow> p | None \<Rightarrow> [])
                then (Inl (ErrorHandler ''Invalid credentials'' 401), s)
                else (Inr (SendToken u 200), s)))"

text \<open>
  \<^verbatim>\<open>PUT /update-user-info\<close>. The first argument after the state is the principal that
  \<^verbatim>\<open>isAuthenticated\<close> attached to the request; the handler does not read it.
\<close>

definition update_user_info ::
  "'c services \<Rightarrow> 'c state \<Rightarrow> user \<Rightarrow> string \<Rightarrow> string \<Rightarrow> string option \<Rightarrow> string
     \<Rightarrow> (error + reply) \<times> 'c state" where
  "update_user_info svc s req_user em pw phone n =
     (case findOne (users s) em of
        None \<Rightarrow> (Inl (ErrorHandler ''User not found'' 404), s)
      | Some u \<Rightarrow>
          if \<not> comparePassword svc u pw
          then (Inl (ErrorHandler ''Invalid credentials'' 401), s)
          else (let u' = u\<lparr>name := n, email := em, phoneNumber := phone\<rparr>
                in (Inr (JsonUser 200 (Some u')), s\<lparr>users := save u' (users s)\<rparr>)))"


text \<open>\<^verbatim>\<open>Object.assign(existsAddress, req.body)\<close>: the properties the body has win.\<close>

definition Object_assign :: "address \<Rightarrow> address_body \<Rightarrow> address" where
  "Object_assign a b =
     \<lparr>address_id = (case body_id b of None \<Rightarrow> address_id a | Some i \<Rightarrow> i),
      addressType = (case body_addressType b of None \<Rightarrow> addressType a | Some t \<Rightarrow> Some t),
      addressFields = addressFields a ++ body_fields b\<rparr>"

text \<open>
  \<^verbatim>\<open>user.addresses.push(req.body)\<close>: the body becomes an address, under its own
  identifier when it has one and under a new one otherwise.
\<close>

definition push_address :: "objectId \<Rightarrow> address_body \<Rightarrow> address" where
  "push_address fresh b =
     \<lparr>address_id = (case body_id b of None \<Rightarrow> fresh | Some i \<Rightarrow> i),
      addressType = body_addressType b,
      addressFields = body_fields b\<rparr>"

text \<open>
  \<^verbatim>\<open>address._id === req.body._id\<close>. The left operand is the identifier object of a
  stored address, the right operand is what the JSON body holds under \<^verbatim>\<open>_id\<close>: nothing,
  or a string. Strict equality converts neither operand, so an object is equal to neither,
  whatever identifier the string denotes.
\<close>

definition strict_equals_id :: "objectId \<Rightarrow> objectId option \<Rightarrow> bool" where
  "strict_equals_id stored requested =
     (case requested of
        None \<Rightarrow> False
      | Some denoted \<Rightarrow> False)"

text \<open>
  The address that \<^verbatim>\<open>find\<close> returns, the first one the comparison accepts, is assigned
  to; the others stay.
\<close>

fun assign_first :: "objectId option \<Rightarrow> address_body \<Rightarrow> address list \<Rightarrow> address list" where
  "assign_first i b [] = []"
| "assign_first i b (a # as) =
     (if strict_equals_id (address_id a) i then Object_assign a b # as
      else a # assign_first i b as)"

definition template_type :: "string option \<Rightarrow> string" where
  "template_type t = (case t of None \<Rightarrow> ''undefined'' | Some v \<Rightarrow> v)"

text \<open>\<^verbatim>\<open>PUT /update-user-addresses\<close>.\<close>

definition update_user_addresses ::
  "'c state \<Rightarrow> objectId \<Rightarrow> address_body \<Rightarrow> (error + reply) \<times> 'c state" where
  "update_user_addresses s req_user_id body =
     (case findById (users s) req_user_id of
        None \<Rightarrow> (Inl (Thrown TypeError), s)
      | Some u \<Rightarrow>
          (case find (\<lambda>a. addressType a = body_addressType body) (addresses u) of
             Some sameTypeAddress \<Rightarrow>
               (Inl (ErrorHandler (template_type (body_addressType body) @ '' address already exists'') 400), s)
           | None \<Rightarrow>
               (case find (\<lambda>a. strict_equals_id (address_id a) (body_id body)) (addresses u) of
                  Some existsAddress \<Rightarrow>
                    (let u' = u\<lparr>addresses := assign_first (body_id body) body (addresses u)\<rparr>
                     in (Inr (JsonUser 200 (Some u')), s\<lparr>users := save u' (users s)\<rparr>))
                | None \<Rightarrow>
                    (let u' = u\<lparr>addresses := addresses u @ [push_address (fresh_id s) body]\<rparr>
                     in (Inr (JsonUser 200 (Some u')),
                         s\<lparr>users := save u' (users s), fresh_id := Suc (fresh_id s)\<rparr>)))))"

text \<open>\<^verbatim>\<open>$pull: { addresses: { _id: addressId } }\<close>.\<close>

definition pull_address :: "objectId \<Rightarrow> user \<Rightarrow> user" where
  "pull_address addressId u = u\<lparr>addresses := filter (\<lambda>a. address_id a \<noteq> addressId) (addresses u)\<rparr>"

text \<open>\<^verbatim>\<open>DELETE /delete-user-address/:id\<close>.\<close>

definition delete_user_address ::
  "'c state \<Rightarrow> objectId \<Rightarrow> objectId \<Rightarrow> (error + reply) \<times> 'c state" where
  "delete_user_address s userId addressId =
     (let s' = s\<lparr>users := updateOne userId (pull_address addressId) (users s)\<rparr>
      in (Inr (JsonUser 200 (findById (users s') userId)), s'))"

text \<open>\<^verbatim>\<open>GET /admin-all-users\<close>.\<close>

definition admin_all_users :: "'c state \<Rightarrow> (error + reply) \<times> 'c state" where
  "admin_all_users s = (Inr (JsonUsers 200 (sort_createdAt_desc (users s))), s)"

text \<open>\<^verbatim>\<open>findByIdAndDelete(id)\<close>: the first document with the identifier is removed.\<close>

fun findByIdAndDelete :: "objectId \<Rightarrow> user list \<Rightarrow> user list" where
  "findByIdAndDelete i [] = []"
| "findByIdAndDelete i (u # us) = (if user_id u = i then us else u # findByIdAndDelete i us)"

text \<open>\<^verbatim>\<open>DELETE /delete-user/:id\<close>.\<close>

definition delete_user ::
  "'c services \<Rightarrow> 'c state \<Rightarrow> objectId \<Rightarrow> (error + reply) \<times> 'c state" where
  "delete_user svc s i =
     (case findById (users s) i of
        None \<Rightarrow> (Inl (ErrorHandler ''User not found'' 404), s)
      | Some u \<Rightarrow>
          (case avatar u of
             None \<Rightarrow> (Inl (Thrown TypeError), s)
           | Some img \<Rightarrow>
               (case cloud_destroy svc (cloudinary s) (public_id img) of
                  None \<Rightarrow> (Inl (Thrown CloudinaryError), s)
                | Some c \<Rightarrow>
                    (Inr (JsonMessage 200 ''User deleted successfully''),
                     s\<lparr>cloudinary := c, users := findByIdAndDelete i (users s)\<rparr>))))"

subsection \<open>A concrete instance\<close>

text \<open>
  An instance of the collaborators on which the handlers can be run: passwords are compared
  as stored, the image host is the list of the identifiers it holds, every mail is
  delivered, and the MAC of a token is the secret followed by the payload's email.
\<close>

definition test_services :: "string list services" where
  "test_services =
     \<lparr>comparePassword = (\<lambda>u p. password u = p),
      cloud_upload = (\<lambda>c file opts. case file of
                         None \<Rightarrow> None
                       | Some f \<Rightarrow> Some (\<lparr>public_id = folder opts @ ''/'' @ f,
                                          url = ''https://img/'' @ f\<rparr>,
                                         c @ [folder opts @ ''/'' @ f])),
      cloud_destroy = (\<lambda>c pid. Some (removeAll pid c)),
      sendMail = (\<lambda>m. True),
      hmac = (\<lambda>secret (u, iat, exp). secret @ email u),
      render_token = jwt_signature,
      ACTIVATION_SECRET = ''k''\<rparr>"

text \<open>The same collaborators with an image host that refuses every deletion.\<close>

definition offline_services :: "string list services" where
  "offline_services = test_services\<lparr>cloud_destroy := (\<lambda>c pid. None)\<rparr>"

definition empty_state :: "string list state" where
  "empty_state = \<lparr>users = [], cloudinary = [], outbox = [], fresh_id = 0\<rparr>"

definition alice :: user where
  "alice = \<lparr>user_id = 0, name = ''A'', email = ''a@x.com'', password = ''p'',
            phoneNumber = None, avatar = None, addresses = [], createdAt = 5000\<rparr>"

definition home :: address where
  "home = \<lparr>address_id = 7, addressType = Some ''Home'',
           addressFields = [''city'' \<mapsto> ''Pune'']\<rparr>"

definition office :: address where
  "office = \<lparr>address_id = 8, addressType = Some ''Office'',
             addressFields = [''city'' \<mapsto> ''Delhi'']\<rparr>"

definition bob :: user where
  "bob = \<lparr>user_id = 1, name = ''B'', email = ''b@x.com'', password = ''q'',
          phoneNumber = None,
          avatar = Some \<lparr>public_id = ''avatars/b'', url = ''https://img/b''\<rparr>,
          addresses = [home, office], createdAt = 7000\<rparr>"

definition shop_state :: "string list state" where
  "shop_state = \<lparr>users = [alice, bob], cloudinary = [''avatars/b''], outbox = [], fresh_id = 10\<rparr>"

section \<open>Properties\<close>

subsection \<open>Queries and updates of the collection\<close>

lemma findOne_None_iff: "findOne us e = None \<longleftrightarrow> (\<forall>u \<in> set us. email u \<noteq> e)"
  by (auto simp: findOne_def find_None_iff)

lemma findOne_Some_email: "findOne us e = Some u \<Longrightarrow> email u = e \<and> u \<in> set us"
  by (auto simp: findOne_def find_Some_iff)

lemma findById_Some_id: "findById us i = Some u \<Longrightarrow> user_id u = i \<and> u \<in> set us"
  by (auto simp: findById_def find_Some_iff)

lemma findById_updateOne_same:
  "findById us i = Some u \<Longrightarrow> user_id (f u) = i \<Longrightarrow> findById (updateOne i f us) i = Some (f u)"
  by (induction us) (auto simp: findById_def split: if_splits)

lemma findById_updateOne_miss: "findById us i = None \<Longrightarrow> updateOne i f us = us"
  by (induction us) (auto simp: findById_def split: if_splits)

lemma findById_updateOne_other:
  "j \<noteq> i \<Longrightarrow> (\<And>d. user_id d = i \<Longrightarrow> user_id (f d) = i)
     \<Longrightarrow> findById (updateOne i f us) j = findById us j"
  by (induction us) (auto simp: findById_def split: if_splits)


lemma updateOne_twice:
  "(\<And>d. user_id (f d) = user_id d) \<Longrightarrow> (\<And>d. f (f d) = f d)
     \<Longrightarrow> updateOne i f (updateOne i f us) = updateOne i f us"
  by (induction us) auto

lemma findById_save:
  "findById us i = Some u \<Longrightarrow> user_id u' = i \<Longrightarrow> findById (save u' us) i = Some u'"
  using findById_updateOne_same [of us i u "\<lambda>_. u'"] by (simp add: save_def)

lemma findById_save_other:
  "j \<noteq> user_id u' \<Longrightarrow> findById (save u' us) j = findById us j"
  using findById_updateOne_other [of j "user_id u'" "\<lambda>_. u'" us] by (simp add: save_def)


lemma findById_of_member:
  "distinct (map user_id us) \<Longrightarrow> u \<in> set us \<Longrightarrow> findById us (user_id u) = Some u"
  by (induction us) (auto simp: findById_def)

subsection \<open>The concrete instance\<close>

lemma shop_findById_bob: "findById (users shop_state) 1 = Some bob"
  by (simp add: findById_def shop_state_def alice_def bob_def)

lemma shop_findById_alice: "findById (users shop_state) 0 = Some alice"
  by (simp add: findById_def shop_state_def alice_def bob_def)

lemma shop_save_bob: "user_id u' = 1 \<Longrightarrow> save u' (users shop_state) = [alice, u']"
  by (simp add: save_def shop_state_def alice_def bob_def)

subsection \<open>Account creation\<close>

text \<open>
  Claim C5. A create-user request whose email is the email of a user already in the
  collection fails with the error "User already exists" (status 400), whatever the name,
  the password, the avatar and the time of the request are, and the state after the
  request is the state before it: no document, image or mail is created or changed.
\<close>

theorem create_user_existing_email:
  assumes "u \<in> set (users s)" and "email u = e"
  shows "create_user svc now s n e p av = (Inl (ErrorHandler ''User already exists'' 400), s)"
proof -
  from assms have "findOne (users s) e \<noteq> None"
    by (auto simp: findOne_None_iff)
  then obtain v where "findOne (users s) e = Some v" by blast
  then show ?thesis by (simp add: create_user_def)
qed

theorem create_user_existing_email_witness:
  "alice \<in> set (users shop_state) \<and> email alice = ''a@x.com'' \<and>
   create_user test_services 6000 shop_state ''Z'' ''a@x.com'' ''other'' (Some ''img'')
     = (Inl (ErrorHandler ''User already exists'' 400), shop_state)"
  using create_user_existing_email [of alice shop_state "''a@x.com''" test_services 6000
      "''Z''" "''other''" "Some ''img''"]
  by (simp add: shop_state_def alice_def)

text \<open>
  A create-user request that succeeds has stored the account: the lookup by the request's
  email finds it in the state after the request, a second create-user request with the
  email is refused, and an activation request on that state with a token that verifies
  and carries the email is refused.
\<close>

lemma create_user_save_stored:
  "create_user_save svc now s n e p av = (r, s')
     \<Longrightarrow> users s' = users s @ [new_User (fresh_id s) now n e p av]"
  by (auto simp: create_user_save_def save_new_def Let_def split: if_splits)

lemma create_user_success_stored:
  assumes "create_user svc now s n e p av = (Inr r, s')"
  shows "\<exists>img. users s' = users s @ [new_User (fresh_id s) now n e p img]"
  using assms create_user_save_stored [of svc now _ n e p _ "Inr r" s']
  by (fastforce simp: create_user_def split: option.splits if_splits prod.splits)

lemma create_user_success_queryable:
  assumes "create_user svc now s n e p av = (Inr r, s')"
  shows "\<exists>u. findOne (users s') e = Some u"
proof -
  from create_user_success_stored [OF assms]
  obtain img where "users s' = users s @ [new_User (fresh_id s) now n e p img]" by blast
  then have "\<exists>u \<in> set (users s'). email u = e" by (simp add: new_User_def)
  then have "findOne (users s') e \<noteq> None" by (simp add: findOne_None_iff)
  then show ?thesis by blast
qed

lemma create_user_replay_refused:
  assumes "create_user svc now s n e p av = (Inr r, s')"
  shows "create_user svc now2 s' n2 e p2 av2 = (Inl (ErrorHandler ''User already exists'' 400), s')"
  using create_user_success_queryable [OF assms] by (auto simp: create_user_def)

lemma create_user_then_activation_refused:
  assumes "create_user svc now s n e p av = (Inr r, s')"
    and "jwt_verify svc now2 token (ACTIVATION_SECRET svc) = Inr u" and "email u = e"
  shows "activation svc now2 s' token = (Inl (ErrorHandler ''User already activated'' 400), s')"
  using create_user_success_queryable [OF assms(1)] assms(2,3)
  by (auto simp: activation_def)

text \<open>
  Claim C1. The claim says that after a successful create-user request no account for the
  email can be retrieved until an activation request has succeeded. The handler calls
  \<^verbatim>\<open>user.save()\<close> before it signs the activation token, so the account is in the
  collection at once. Run on the empty collection with the request
  \<^verbatim>\<open>{name: "A", email: "a@x.com", password: "p"}\<close>, the handler answers 201 and
  leaves the document in the collection: a lookup by email or by identifier returns it,
  a login with the password succeeds, and the activation request with the token that was
  mailed is refused with "User already activated".
\<close>

theorem create_user_then_queryable:
  "create_user test_services 5000 empty_state ''A'' ''a@x.com'' ''p'' None
     = (Inr (JsonMessage 201 ''Please check your email (a@x.com) to activate your account!''),
        \<lparr>users = [alice], cloudinary = [],
         outbox = [activation_mail test_services alice (createActivationToken test_services 5000 alice)],
         fresh_id = 1\<rparr>)
   \<and> findOne [alice] ''a@x.com'' = Some alice
   \<and> findById [alice] 0 = Some alice
   \<and> fst (login_user test_services
        (snd (create_user test_services 5000 empty_state ''A'' ''a@x.com'' ''p'' None))
        (Some ''a@x.com'') (Some ''p'')) = Inr (SendToken alice 200)
   \<and> fst (activation test_services 6000
        (snd (create_user test_services 5000 empty_state ''A'' ''a@x.com'' ''p'' None))
        (Some (createActivationToken test_services 5000 alice)))
       = Inl (ErrorHandler ''User already activated'' 400)"
proof -
  have 1: "create_user test_services 5000 empty_state ''A'' ''a@x.com'' ''p'' None
     = (Inr (JsonMessage 201 ''Please check your email (a@x.com) to activate your account!''),
        \<lparr>users = [alice], cloudinary = [],
         outbox = [activation_mail test_services alice (createActivationToken test_services 5000 alice)],
         fresh_id = 1\<rparr>)"
    by (simp add: create_user_def create_user_save_def findOne_def empty_state_def truthy_def
        new_User_def save_new_def alice_def Let_def test_services_def)
  have 2: "findOne [alice] ''a@x.com'' = Some alice \<and> findById [alice] 0 = Some alice"
    by (simp add: findOne_def findById_def alice_def)
  have 3: "jwt_verify test_services 6000 (Some (createActivationToken test_services 5000 alice))
             (ACTIVATION_SECRET test_services) = Inr alice"
    by (simp add: jwt_verify_def createActivationToken_def jwt_sign_def Let_def)
  show ?thesis
    unfolding 1 using 2 3
    by (simp add: login_user_def truthy_def activation_def)
       (simp add: test_services_def alice_def)
qed

theorem create_user_then_queryable_witness:
  "findOne (users (snd (create_user test_services 5000 empty_state ''A'' ''a@x.com'' ''p'' None)))
     ''a@x.com'' = Some alice"
  using create_user_then_queryable by simp

subsection \<open>Activation\<close>

lemma jwt_verify_fresh:
  "now div 1000 < issued div 1000 + 300 \<Longrightarrow>
   jwt_verify svc now (Some (createActivationToken svc issued u)) (ACTIVATION_SECRET svc) = Inr u"
  by (simp add: jwt_verify_def createActivationToken_def jwt_sign_def Let_def)

lemma activation_success_adds:
  assumes "activation svc now s token = (Inr r, s')"
  shows "\<exists>t. token = Some t \<and> users s' = users s @ [jwt_user t] \<and> r = SendToken (jwt_user t) 201"
  using assms
  by (auto simp: activation_def jwt_verify_def User_create_def
           split: option.splits sum.splits if_splits)

text \<open>
  Claim C4. An activation request fails, and leaves the state as it was, when the token is
  missing, when its signature is not the one the activation secret gives for its content
  (a tampered token), and when its expiry time has been reached; a token built by
  \<^verbatim>\<open>createActivationToken\<close> has reached its expiry time once 300000 milliseconds (five
  minutes) have passed since it was issued. When an activation request has succeeded, an
  activation request on the resulting state with any token that verifies and carries the
  same email fails with "User already activated".
\<close>

theorem activation_rejects_bad_token_and_replay:
  "activation svc now s None = (Inl (Thrown JsonWebTokenError), s)
   \<and> (jwt_signature t \<noteq> hmac svc (ACTIVATION_SECRET svc) (jwt_user t, jwt_iat t, jwt_exp t)
      \<longrightarrow> activation svc now s (Some t) = (Inl (Thrown JsonWebTokenError), s))
   \<and> (jwt_signature t = hmac svc (ACTIVATION_SECRET svc) (jwt_user t, jwt_iat t, jwt_exp t)
        \<and> jwt_exp t \<le> now div 1000
      \<longrightarrow> activation svc now s (Some t) = (Inl (Thrown TokenExpiredError), s))
   \<and> (issued + 300000 \<le> now
      \<longrightarrow> activation svc now s (Some (createActivationToken svc issued u))
            = (Inl (Thrown TokenExpiredError), s))
   \<and> (activation svc now s token = (Inr r, s')
        \<and> jwt_verify svc now2 token2 (ACTIVATION_SECRET svc) = Inr u2
        \<and> (\<exists>t1. token = Some t1 \<and> email (jwt_user t1) = email u2)
      \<longrightarrow> activation svc now2 s' token2 = (Inl (ErrorHandler ''User already activated'' 400), s'))"
proof (intro conjI impI)
  show "activation svc now s None = (Inl (Thrown JsonWebTokenError), s)"
    by (simp add: activation_def jwt_verify_def)
next
  assume "jwt_signature t \<noteq> hmac svc (ACTIVATION_SECRET svc) (jwt_user t, jwt_iat t, jwt_exp t)"
  then show "activation svc now s (Some t) = (Inl (Thrown JsonWebTokenError), s)"
    by (simp add: activation_def jwt_verify_def)
next
  assume "jwt_signature t = hmac svc (ACTIVATION_SECRET svc) (jwt_user t, jwt_iat t, jwt_exp t)
        \<and> jwt_exp t \<le> now div 1000"
  then show "activation svc now s (Some t) = (Inl (Thrown TokenExpiredError), s)"
    by (simp add: activation_def jwt_verify_def)
next
  assume old: "issued + 300000 \<le> now"
  have "(issued + 300000) div 1000 \<le> now div 1000"
    using old by (rule div_le_mono)
  then have "issued div 1000 + 300 \<le> now div 1000" by simp
  then show "activation svc now s (Some (createActivationToken svc issued u))
            = (Inl (Thrown TokenExpiredError), s)"
    by (simp add: activation_def jwt_verify_def createActivationToken_def jwt_sign_def Let_def)
next
  assume h: "activation svc now s token = (Inr r, s')
        \<and> jwt_verify svc now2 token2 (ACTIVATION_SECRET svc) = Inr u2
        \<and> (\<exists>t1. token = Some t1 \<and> email (jwt_user t1) = email u2)"
  then obtain t1 where t1: "token = Some t1" "email (jwt_user t1) = email u2" by blast
  from h activation_success_adds [of svc now s token r s'] t1
  have "users s' = users s @ [jwt_user t1]" by auto
  then have "jwt_user t1 \<in> set (users s')" by simp
  with t1 have "findOne (users s') (email u2) \<noteq> None"
    by (auto simp: findOne_None_iff)
  then obtain v where "findOne (users s') (email u2) = Some v" by blast
  with h show "activation svc now2 s' token2 = (Inl (ErrorHandler ''User already activated'' 400), s')"
    by (simp add: activation_def)
qed

theorem activation_rejects_bad_token_and_replay_witness:
  "jwt_signature (createActivationToken test_services 5000 alice\<lparr>jwt_user := alice\<lparr>email := ''m@x.com''\<rparr>\<rparr>)
     \<noteq> ''km@x.com''
   \<and> activation test_services 6000 empty_state
        (Some (createActivationToken test_services 5000 alice\<lparr>jwt_user := alice\<lparr>email := ''m@x.com''\<rparr>\<rparr>))
       = (Inl (Thrown JsonWebTokenError), empty_state)
   \<and> activation test_services 305000 empty_state (Some (createActivationToken test_services 5000 alice))
       = (Inl (Thrown TokenExpiredError), empty_state)
   \<and> activation test_services 9000 empty_state (Some (createActivationToken test_services 5000 alice))
       = (Inr (SendToken alice 201), empty_state\<lparr>users := [alice]\<rparr>)
   \<and> jwt_verify test_services 9500
        (Some (createActivationToken test_services 7000 (alice\<lparr>user_id := 3, name := ''AA''\<rparr>)))
        (ACTIVATION_SECRET test_services) = Inr (alice\<lparr>user_id := 3, name := ''AA''\<rparr>)
   \<and> activation test_services 9500 (empty_state\<lparr>users := [alice]\<rparr>)
        (Some (createActivationToken test_services 7000 (alice\<lparr>user_id := 3, name := ''AA''\<rparr>)))
       = (Inl (ErrorHandler ''User already activated'' 400), empty_state\<lparr>users := [alice]\<rparr>)"
proof -
  let ?tok = "createActivationToken test_services 5000 alice"
  let ?bad = "?tok\<lparr>jwt_user := alice\<lparr>email := ''m@x.com''\<rparr>\<rparr>"
  let ?u2 = "alice\<lparr>user_id := 3, name := ''AA''\<rparr>"
  let ?tok2 = "createActivationToken test_services 7000 ?u2"
  let ?s1 = "empty_state\<lparr>users := [alice]\<rparr>"
  have bad: "jwt_signature ?bad \<noteq> ''km@x.com''"
    by (simp add: createActivationToken_def jwt_sign_def Let_def test_services_def alice_def)
  have bad': "jwt_signature ?bad
      \<noteq> hmac test_services (ACTIVATION_SECRET test_services) (jwt_user ?bad, jwt_iat ?bad, jwt_exp ?bad)"
    by (simp add: createActivationToken_def jwt_sign_def Let_def test_services_def alice_def)
  have old: "(5000::nat) + 300000 \<le> 305000" by simp
  have first: "activation test_services 9000 empty_state (Some ?tok) = (Inr (SendToken alice 201), ?s1)"
    by (simp add: activation_def jwt_verify_fresh findOne_def User_create_def empty_state_def)
  have second: "jwt_verify test_services 9500 (Some ?tok2) (ACTIVATION_SECRET test_services) = Inr ?u2"
    by (simp add: jwt_verify_fresh)
  have same: "\<exists>t1. Some ?tok = Some t1 \<and> email (jwt_user t1) = email ?u2"
    by (simp add: createActivationToken_def jwt_sign_def Let_def)
  note inst1 = activation_rejects_bad_token_and_replay [where svc = test_services and s = empty_state
      and t = ?bad and now = 6000]
  note inst2 = activation_rejects_bad_token_and_replay [where svc = test_services and s = empty_state
      and now = 305000 and issued = 5000 and u = alice]
  note inst3 = activation_rejects_bad_token_and_replay [where svc = test_services and s = empty_state
      and now = 9000 and token = "Some ?tok" and r = "SendToken alice 201" and s' = ?s1
      and ?now2.0 = 9500 and ?token2.0 = "Some ?tok2" and ?u2.0 = ?u2]
  from inst1 bad' have 1: "activation test_services 6000 empty_state (Some ?bad)
       = (Inl (Thrown JsonWebTokenError), empty_state)" by blast
  from inst2 old have 2: "activation test_services 305000 empty_state (Some ?tok)
       = (Inl (Thrown TokenExpiredError), empty_state)" by blast
  from inst3 first second same have 3: "activation test_services 9500 ?s1 (Some ?tok2)
       = (Inl (ErrorHandler ''User already activated'' 400), ?s1)" by blast
  from bad 1 2 first second 3 show ?thesis by blast
qed

subsection \<open>Login\<close>

text \<open>
  Claim C3. For a login request with a non-empty email and a non-empty password, the
  request succeeds exactly when the lookup by email finds a user and the model's password
  comparison accepts the password for that user, and it then answers with that user's
  session token. A request that names an email with no user and a request that names an
  existing email with a password the comparison rejects get the same error, "Invalid
  credentials" with status 401, and neither changes the state.
\<close>

theorem login_user_outcomes:
  assumes "e \<noteq> []" and "p \<noteq> []" and "e2 \<noteq> []" and "p2 \<noteq> []"
  shows "((\<exists>r. fst (login_user svc s (Some e) (Some p)) = Inr r)
            \<longleftrightarrow> (\<exists>u. findOne (users s) e = Some u \<and> comparePassword svc u p))
       \<and> (\<forall>u. findOne (users s) e = Some u \<and> comparePassword svc u p
            \<longrightarrow> login_user svc s (Some e) (Some p) = (Inr (SendToken u 200), s))
       \<and> (findOne (users s) e = None \<and> findOne (users s2) e2 = Some u2
              \<and> \<not> comparePassword svc u2 p2
            \<longrightarrow> fst (login_user svc s (Some e) (Some p)) = Inl (ErrorHandler ''Invalid credentials'' 401)
              \<and> fst (login_user svc s2 (Some e2) (Some p2)) = fst (login_user svc s (Some e) (Some p))
              \<and> snd (login_user svc s (Some e) (Some p)) = s
              \<and> snd (login_user svc s2 (Some e2) (Some p2)) = s2)"
  using assms
  by (auto simp: login_user_def truthy_def split: option.splits)

theorem login_user_outcomes_witness:
  "(\<exists>r. fst (login_user test_services shop_state (Some ''b@x.com'') (Some ''q'')) = Inr r)
   \<and> login_user test_services shop_state (Some ''b@x.com'') (Some ''q'') = (Inr (SendToken bob 200), shop_state)
   \<and> findOne (users shop_state) ''c@x.com'' = None
   \<and> findOne (users shop_state) ''a@x.com'' = Some alice
   \<and> \<not> comparePassword test_services alice ''zz''
   \<and> fst (login_user test_services shop_state (Some ''c@x.com'') (Some ''p''))
       = Inl (ErrorHandler ''Invalid credentials'' 401)
   \<and> fst (login_user test_services shop_state (Some ''a@x.com'') (Some ''zz''))
       = fst (login_user test_services shop_state (Some ''c@x.com'') (Some ''p''))"
proof -
  have a: "findOne (users shop_state) ''b@x.com'' = Some bob \<and> comparePassword test_services bob ''q''"
    by (simp add: findOne_def shop_state_def alice_def bob_def test_services_def)
  have b: "findOne (users shop_state) ''c@x.com'' = None
     \<and> findOne (users shop_state) ''a@x.com'' = Some alice
     \<and> \<not> comparePassword test_services alice ''zz''"
    by (simp add: findOne_def shop_state_def alice_def bob_def test_services_def)
  have c: "''b@x.com'' \<noteq> []" "''q'' \<noteq> []" "''a@x.com'' \<noteq> []" "''zz'' \<noteq> []"
      "''c@x.com'' \<noteq> []" "''p'' \<noteq> []"
    by simp_all
  from login_user_outcomes [of "''b@x.com''" "''q''" "''a@x.com''" "''zz''" test_services
      shop_state shop_state alice] a c
  have 1: "(\<exists>r. fst (login_user test_services shop_state (Some ''b@x.com'') (Some ''q'')) = Inr r)
   \<and> login_user test_services shop_state (Some ''b@x.com'') (Some ''q'') = (Inr (SendToken bob 200), shop_state)"
    by blast
  from login_user_outcomes [of "''c@x.com''" "''p''" "''a@x.com''" "''zz''" test_services
      shop_state shop_state alice] b c
  have 2: "fst (login_user test_services shop_state (Some ''c@x.com'') (Some ''p''))
       = Inl (ErrorHandler ''Invalid credentials'' 401)
   \<and> fst (login_user test_services shop_state (Some ''a@x.com'') (Some ''zz''))
       = fst (login_user test_services shop_state (Some ''c@x.com'') (Some ''p''))"
    by blast
  from 1 2 b show ?thesis by blast
qed

subsection \<open>Profile updates\<close>

text \<open>
  Claim C9. The update-user-info handler picks the document by the email of the request
  body. Whoever the authenticated principal is, when the body carries the email of an
  account and a password the comparison accepts for that account, the request succeeds
  and the name, email and phone number of that account are the ones of the body; every
  other document is as before. Identifiers are unique in the collection.
\<close>

theorem update_user_info_by_body_email:
  assumes "findOne (users s) em = Some victim" and "comparePassword svc victim pw"
    and "distinct (map user_id (users s))"
  shows "\<exists>victim' s'. victim' = victim\<lparr>name := n, email := em, phoneNumber := phone\<rparr>
      \<and> update_user_info svc s req_user em pw phone n = (Inr (JsonUser 200 (Some victim')), s')
      \<and> findById (users s') (user_id victim) = Some victim'
      \<and> (\<forall>j. j \<noteq> user_id victim \<longrightarrow> findById (users s') j = findById (users s) j)"
proof -
  define victim' where "victim' = victim\<lparr>name := n, email := em, phoneNumber := phone\<rparr>"
  define s' where "s' = s\<lparr>users := save victim' (users s)\<rparr>"
  have run: "update_user_info svc s req_user em pw phone n = (Inr (JsonUser 200 (Some victim')), s')"
    using assms(1,2) by (simp add: update_user_info_def victim'_def s'_def Let_def)
  have mem: "victim \<in> set (users s)" using assms(1) findOne_Some_email by blast
  have old: "findById (users s) (user_id victim) = Some victim"
    using assms(3) mem by (rule findById_of_member)
  have id': "user_id victim' = user_id victim" by (simp add: victim'_def)
  have f1: "findById (users s') (user_id victim) = Some victim'"
    using findById_save [OF old id'] by (simp add: s'_def)
  have f2: "\<forall>j. j \<noteq> user_id victim \<longrightarrow> findById (users s') j = findById (users s) j"
    using findById_save_other [of _ victim' "users s"] id' by (simp add: s'_def)
  show ?thesis
    using victim'_def run f1 f2
    by (intro exI [of _ victim'] exI [of _ s']) simp
qed

theorem update_user_info_by_body_email_witness:
  "findOne (users shop_state) ''b@x.com'' = Some bob
   \<and> comparePassword test_services bob ''q''
   \<and> distinct (map user_id (users shop_state))
   \<and> user_id alice \<noteq> user_id bob
   \<and> update_user_info test_services shop_state alice ''b@x.com'' ''q'' (Some ''555'') ''Mallory''
       = (Inr (JsonUser 200 (Some (bob\<lparr>name := ''Mallory'', email := ''b@x.com'', phoneNumber := Some ''555''\<rparr>))),
          shop_state\<lparr>users := [alice, bob\<lparr>name := ''Mallory'', email := ''b@x.com'', phoneNumber := Some ''555''\<rparr>]\<rparr>)
   \<and> findById (users (snd (update_user_info test_services shop_state alice ''b@x.com'' ''q'' (Some ''555'') ''Mallory''))) 1
       = Some (bob\<lparr>name := ''Mallory'', email := ''b@x.com'', phoneNumber := Some ''555''\<rparr>)"
proof -
  let ?b' = "bob\<lparr>name := ''Mallory'', email := ''b@x.com'', phoneNumber := Some ''555''\<rparr>"
  have h1: "findOne (users shop_state) ''b@x.com'' = Some bob"
    by (simp add: findOne_def shop_state_def alice_def bob_def)
  have h2: "comparePassword test_services bob ''q''"
    by (simp add: test_services_def bob_def)
  have h3: "distinct (map user_id (users shop_state))"
    by (simp add: shop_state_def alice_def bob_def)
  have h4: "user_id alice \<noteq> user_id bob" by (simp add: alice_def bob_def)
  have idb: "user_id bob = 1" by (simp add: bob_def)
  from update_user_info_by_body_email [OF h1 h2 h3, where req_user = alice and phone = "Some ''555''" and n = "''Mallory''"]
  obtain s' where s': "update_user_info test_services shop_state alice ''b@x.com'' ''q'' (Some ''555'') ''Mallory''
       = (Inr (JsonUser 200 (Some ?b')), s')" "findById (users s') (user_id bob) = Some ?b'"
    by blast
  have run: "update_user_info test_services shop_state alice ''b@x.com'' ''q'' (Some ''555'') ''Mallory''
       = (Inr (JsonUser 200 (Some ?b')), shop_state\<lparr>users := [alice, ?b']\<rparr>)"
    using h1 h2 by (simp add: update_user_info_def Let_def shop_save_bob idb)
  from s' have 2: "findById (users (snd (update_user_info test_services shop_state alice ''b@x.com'' ''q'' (Some ''555'') ''Mallory''))) 1 = Some ?b'"
    by (simp add: idb)
  from h1 h2 h3 h4 run 2 show ?thesis by blast
qed




subsection \<open>Addresses\<close>

text \<open>
  The comparison of identifiers accepts no stored address, so the handler never takes the
  branch that assigns in place: a request that passes the check of the address type is
  appended, also when an address of the user carries the identifier the body names.
\<close>

lemma find_strict_equals_id:
  "find (\<lambda>a. strict_equals_id (address_id a) i) as = None"
  by (simp add: find_None_iff strict_equals_id_def split: option.splits)

lemma update_user_addresses_same_type:
  assumes "findById (users s) uid = Some u"
    and "a \<in> set (addresses u)" and "addressType a = body_addressType b"
  shows "update_user_addresses s uid b
           = (Inl (ErrorHandler (template_type (body_addressType b) @ '' address already exists'') 400), s)"
proof -
  from assms(2,3) have "find (\<lambda>a. addressType a = body_addressType b) (addresses u) \<noteq> None"
    by (auto simp: find_None_iff)
  then obtain x where "find (\<lambda>a. addressType a = body_addressType b) (addresses u) = Some x"
    by blast
  with assms(1) show ?thesis by (simp add: update_user_addresses_def)
qed

lemma update_user_addresses_pushes:
  assumes "findById (users s) uid = Some u"
    and "\<forall>a \<in> set (addresses u). addressType a \<noteq> body_addressType b"
  shows "update_user_addresses s uid b
           = (Inr (JsonUser 200 (Some (u\<lparr>addresses := addresses u @ [push_address (fresh_id s) b]\<rparr>))),
              s\<lparr>users := save (u\<lparr>addresses := addresses u @ [push_address (fresh_id s) b]\<rparr>) (users s),
                fresh_id := Suc (fresh_id s)\<rparr>)"
proof -
  from assms(2) have "find (\<lambda>a. addressType a = body_addressType b) (addresses u) = None"
    by (simp add: find_None_iff)
  with assms(1) show ?thesis
    by (simp add: update_user_addresses_def find_strict_equals_id Let_def)
qed

text \<open>
  Claim C2. The claim says that a request whose address type is new and whose identifier
  is the identifier of an address of the user updates that address in place. The handler
  looks the address up with \<^verbatim>\<open>address._id === req.body._id\<close>, which compares the
  identifier object of the stored address with the string of the JSON body and is never
  true, so the request is appended instead. For the user with the addresses Home (identifier
  7) and Office (identifier 8), the request with identifier 8, type Work and city Agra
  answers 200 and leaves three addresses: Home and Office as they were, and a new address
  Work that carries identifier 8 as well.
\<close>

theorem update_user_addresses_pushes_duplicate:
  "update_user_addresses shop_state 1
      \<lparr>body_id = Some 8, body_addressType = Some ''Work'', body_fields = [''city'' \<mapsto> ''Agra'']\<rparr>
     = (Inr (JsonUser 200 (Some (bob\<lparr>addresses :=
            [home, office,
             \<lparr>address_id = 8, addressType = Some ''Work'', addressFields = [''city'' \<mapsto> ''Agra'']\<rparr>]\<rparr>))),
        shop_state\<lparr>users := [alice, bob\<lparr>addresses :=
            [home, office,
             \<lparr>address_id = 8, addressType = Some ''Work'', addressFields = [''city'' \<mapsto> ''Agra'']\<rparr>]\<rparr>],
          fresh_id := 11\<rparr>)
   \<and> address_id office = 8 \<and> addressType office = Some ''Office''
   \<and> addressFields office ''city'' = Some ''Delhi''"
proof -
  let ?b = "\<lparr>body_id = Some 8, body_addressType = Some ''Work'', body_fields = [''city'' \<mapsto> ''Agra'']\<rparr>"
  have adr: "addresses bob = [home, office]" by (simp add: bob_def)
  have ty: "\<forall>a \<in> set (addresses bob). addressType a \<noteq> body_addressType ?b"
    by (simp add: adr home_def office_def)
  have ids: "user_id bob = 1" by (simp add: bob_def)
  have run: "update_user_addresses shop_state 1 ?b
     = (Inr (JsonUser 200 (Some (bob\<lparr>addresses :=
            [home, office,
             \<lparr>address_id = 8, addressType = Some ''Work'', addressFields = [''city'' \<mapsto> ''Agra'']\<rparr>]\<rparr>))),
        shop_state\<lparr>users := [alice, bob\<lparr>addresses :=
            [home, office,
             \<lparr>address_id = 8, addressType = Some ''Work'', addressFields = [''city'' \<mapsto> ''Agra'']\<rparr>]\<rparr>],
          fresh_id := 11\<rparr>)"
    unfolding update_user_addresses_pushes [OF shop_findById_bob ty]
    by (simp add: shop_save_bob ids adr push_address_def) (simp add: shop_state_def)
  have off: "address_id office = 8 \<and> addressType office = Some ''Office''
     \<and> addressFields office ''city'' = Some ''Delhi''"
    by (simp add: office_def)
  from run off show ?thesis by blast
qed

theorem update_user_addresses_pushes_duplicate_witness:
  "map address_id (addresses (users (snd (update_user_addresses shop_state 1
      \<lparr>body_id = Some 8, body_addressType = Some ''Work'',
       body_fields = [''city'' \<mapsto> ''Agra'']\<rparr>)) ! 1)) = [7, 8, 8]"
  using update_user_addresses_pushes_duplicate by (simp add: home_def office_def)

lemma pull_address_twice: "pull_address a (pull_address a d) = pull_address a d"
  by (simp add: pull_address_def)

lemma pull_address_id: "user_id (pull_address a d) = user_id d"
  by (simp add: pull_address_def)

text \<open>
  Claim C7. A delete-user-address request always answers 200, whether or not the user or
  the address exists. The addresses of the principal are then the old ones without those
  whose identifier is the requested one, in their old order; every other user and the
  rest of the state are as before; and the same request on the resulting state gives the
  same answer and the same state.
\<close>

theorem delete_user_address_idempotent:
  "\<exists>s'. delete_user_address s uid aid = (Inr (JsonUser 200 (findById (users s') uid)), s')
     \<and> (\<forall>u. findById (users s) uid = Some u
            \<longrightarrow> findById (users s') uid
                = Some (u\<lparr>addresses := filter (\<lambda>a. address_id a \<noteq> aid) (addresses u)\<rparr>))
     \<and> (findById (users s) uid = None \<longrightarrow> s' = s)
     \<and> (\<forall>j. j \<noteq> uid \<longrightarrow> findById (users s') j = findById (users s) j)
     \<and> cloudinary s' = cloudinary s \<and> outbox s' = outbox s \<and> fresh_id s' = fresh_id s
     \<and> delete_user_address s' uid aid = delete_user_address s uid aid"
proof -
  define s' where "s' = s\<lparr>users := updateOne uid (pull_address aid) (users s)\<rparr>"
  have run: "delete_user_address s uid aid = (Inr (JsonUser 200 (findById (users s') uid)), s')"
    by (simp add: delete_user_address_def s'_def Let_def)
  have found: "\<forall>u. findById (users s) uid = Some u
            \<longrightarrow> findById (users s') uid
                = Some (u\<lparr>addresses := filter (\<lambda>a. address_id a \<noteq> aid) (addresses u)\<rparr>)"
  proof (intro allI impI)
    fix u assume u: "findById (users s) uid = Some u"
    then have "user_id (pull_address aid u) = uid"
      using findById_Some_id [of "users s" uid u] by (simp add: pull_address_id)
    with u have "findById (updateOne uid (pull_address aid) (users s)) uid = Some (pull_address aid u)"
      by (rule findById_updateOne_same)
    then show "findById (users s') uid
                = Some (u\<lparr>addresses := filter (\<lambda>a. address_id a \<noteq> aid) (addresses u)\<rparr>)"
      by (simp add: s'_def pull_address_def)
  qed
  have missing: "findById (users s) uid = None \<longrightarrow> s' = s"
    by (simp add: s'_def findById_updateOne_miss)
  have others: "\<forall>j. j \<noteq> uid \<longrightarrow> findById (users s') j = findById (users s) j"
    by (simp add: s'_def findById_updateOne_other pull_address_id)
  have "updateOne uid (pull_address aid) (users s') = users s'"
    unfolding s'_def using updateOne_twice [of "pull_address aid" uid "users s"]
    by (simp add: pull_address_id pull_address_twice)
  then have again: "delete_user_address s' uid aid = delete_user_address s uid aid"
    unfolding run by (simp add: delete_user_address_def Let_def)
  have frame: "cloudinary s' = cloudinary s \<and> outbox s' = outbox s \<and> fresh_id s' = fresh_id s"
    by (simp add: s'_def)
  show ?thesis
    using run found missing others frame again
    by (intro exI [of _ s']) simp
qed

theorem delete_user_address_idempotent_witness:
  "delete_user_address shop_state 1 7
     = (Inr (JsonUser 200 (Some (bob\<lparr>addresses := [office]\<rparr>))),
        shop_state\<lparr>users := [alice, bob\<lparr>addresses := [office]\<rparr>]\<rparr>)
   \<and> delete_user_address (shop_state\<lparr>users := [alice, bob\<lparr>addresses := [office]\<rparr>]\<rparr>) 1 7
     = (Inr (JsonUser 200 (Some (bob\<lparr>addresses := [office]\<rparr>))),
        shop_state\<lparr>users := [alice, bob\<lparr>addresses := [office]\<rparr>]\<rparr>)
   \<and> findById (users (shop_state\<lparr>users := [alice, bob\<lparr>addresses := [office]\<rparr>]\<rparr>)) 0 = Some alice"
proof -
  let ?s1 = "shop_state\<lparr>users := [alice, bob\<lparr>addresses := [office]\<rparr>]\<rparr>"
  have run: "delete_user_address shop_state 1 7
     = (Inr (JsonUser 200 (Some (bob\<lparr>addresses := [office]\<rparr>))), ?s1)"
    by (simp add: delete_user_address_def Let_def shop_state_def alice_def bob_def
        pull_address_def home_def office_def findById_def)
  from delete_user_address_idempotent [of shop_state 1 7]
  obtain s' where s': "delete_user_address shop_state 1 7 = (Inr (JsonUser 200 (findById (users s') 1)), s')"
      "\<forall>j. j \<noteq> 1 \<longrightarrow> findById (users s') j = findById (users shop_state) j"
      "delete_user_address s' 1 7 = delete_user_address shop_state 1 7"
    by blast
  from s'(1) run have eq: "s' = ?s1" by simp
  from s'(3) have 2: "delete_user_address ?s1 1 7 = (Inr (JsonUser 200 (Some (bob\<lparr>addresses := [office]\<rparr>))), ?s1)"
    unfolding eq run .
  from s'(2) have 3: "findById (users ?s1) 0 = Some alice"
    unfolding eq using shop_findById_alice by simp
  from run 2 3 show ?thesis by blast
qed

subsection \<open>Administration\<close>

lemma mset_insert_desc: "mset (insert_desc u us) = add_mset u (mset us)"
  by (induction us) auto

lemma set_insert_desc: "set (insert_desc u us) = insert u (set us)"
  by (induction us) auto

lemma sorted_insert_desc:
  "sorted_wrt (\<lambda>a b. createdAt b \<le> createdAt a) us
     \<Longrightarrow> sorted_wrt (\<lambda>a b. createdAt b \<le> createdAt a) (insert_desc u us)"
  by (induction us) (auto simp: set_insert_desc)

lemma mset_sort_createdAt_desc: "mset (sort_createdAt_desc us) = mset us"
  by (induction us) (auto simp: mset_insert_desc)

lemma sorted_sort_createdAt_desc:
  "sorted_wrt (\<lambda>a b. createdAt b \<le> createdAt a) (sort_createdAt_desc us)"
  by (induction us) (auto simp: sorted_insert_desc)

text \<open>
  Claim C8. The admin listing answers 200 with a list that holds every user of the
  collection exactly once (it is a permutation of the collection) and in which no user
  comes before one created later; the state is unchanged.
\<close>

theorem admin_all_users_sorted:
  "\<exists>us. admin_all_users s = (Inr (JsonUsers 200 us), s)
      \<and> mset us = mset (users s)
      \<and> sorted_wrt (\<lambda>a b. createdAt b \<le> createdAt a) us"
  using mset_sort_createdAt_desc sorted_sort_createdAt_desc
  by (auto simp: admin_all_users_def)

theorem admin_all_users_sorted_witness:
  "admin_all_users shop_state = (Inr (JsonUsers 200 [bob, alice]), shop_state)
   \<and> mset [bob, alice] = mset (users shop_state)
   \<and> sorted_wrt (\<lambda>a b. createdAt b \<le> createdAt a) [bob, alice]"
proof -
  have run: "admin_all_users shop_state = (Inr (JsonUsers 200 [bob, alice]), shop_state)"
    by (simp add: admin_all_users_def shop_state_def alice_def bob_def)
  from admin_all_users_sorted [of shop_state]
  obtain us where us: "admin_all_users shop_state = (Inr (JsonUsers 200 us), shop_state)"
      "mset us = mset (users shop_state)" "sorted_wrt (\<lambda>a b. createdAt b \<le> createdAt a) us"
    by blast
  from us(1) run have "us = [bob, alice]" by simp
  with us(2,3) run show ?thesis by simp
qed

text \<open>
  Claim C10. In the admin delete-user handler the document is removed only after the
  avatar's identifier has been read and the image host has deleted the image: a request
  that succeeds has found the user, found an avatar on it and had the image deleted.
  A request that fails leaves the whole state as it was; it fails with a type error for a
  user that has no avatar, and with the image host's error when the deletion fails, and
  in both cases the user is still in the collection.
\<close>

theorem delete_user_error_keeps_record:
  "(\<forall>e s'. delete_user svc s i = (Inl e, s') \<longrightarrow> s' = s)
   \<and> (\<forall>u. findById (users s) i = Some u \<and> avatar u = None
         \<longrightarrow> delete_user svc s i = (Inl (Thrown TypeError), s))
   \<and> (\<forall>u img. findById (users s) i = Some u \<and> avatar u = Some img
              \<and> cloud_destroy svc (cloudinary s) (public_id img) = None
         \<longrightarrow> delete_user svc s i = (Inl (Thrown CloudinaryError), s))
   \<and> (\<forall>r s'. delete_user svc s i = (Inr r, s')
         \<longrightarrow> (\<exists>u img. findById (users s) i = Some u \<and> avatar u = Some img
                \<and> cloud_destroy svc (cloudinary s) (public_id img) = Some (cloudinary s')
                \<and> users s' = findByIdAndDelete i (users s)))"
  by (auto simp: delete_user_def split: option.splits)

theorem delete_user_error_keeps_record_witness:
  "findById (users shop_state) 0 = Some alice \<and> avatar alice = None
   \<and> delete_user test_services shop_state 0 = (Inl (Thrown TypeError), shop_state)
   \<and> findById (users shop_state) 1 = Some bob
   \<and> cloud_destroy offline_services (cloudinary shop_state) ''avatars/b'' = None
   \<and> delete_user offline_services shop_state 1 = (Inl (Thrown CloudinaryError), shop_state)
   \<and> delete_user test_services shop_state 1
       = (Inr (JsonMessage 200 ''User deleted successfully''),
          shop_state\<lparr>cloudinary := [], users := [alice]\<rparr>)"
proof -
  let ?old = "\<lparr>public_id = ''avatars/b'', url = ''https://img/b''\<rparr>"
  have a: "avatar alice = None" by (simp add: alice_def)
  have b: "avatar bob = Some ?old" by (simp add: bob_def)
  have c: "cloud_destroy offline_services (cloudinary shop_state) ''avatars/b'' = None"
    by (simp add: offline_services_def)
  from delete_user_error_keeps_record [of test_services shop_state 0] shop_findById_alice a
  have 1: "delete_user test_services shop_state 0 = (Inl (Thrown TypeError), shop_state)"
    by blast
  from delete_user_error_keeps_record [of offline_services shop_state 1] shop_findById_bob b c
  have 2: "delete_user offline_services shop_state 1 = (Inl (Thrown CloudinaryError), shop_state)"
    by simp
  have 3: "delete_user test_services shop_state 1
       = (Inr (JsonMessage 200 ''User deleted successfully''),
          shop_state\<lparr>cloudinary := [], users := [alice]\<rparr>)"
    using shop_findById_bob b
    by (simp add: delete_user_def) (simp add: shop_state_def test_services_def alice_def bob_def)
  from shop_findById_alice a 1 shop_findById_bob c 2 3 show ?thesis by blast
qed

end
